theory Spec2Isabelle
  imports Main
begin

section \<open>Python values\<close>

text \<open>
  A Python string is a sequence of Unicode code points and \<open>len\<close> counts them, so a
  string is modelled as a list of code points (natural numbers), never as a list of bytes.
  \<open>py\<close> embeds an ASCII literal of the source, such as \<open>'Martin'\<close>.
\<close>

type_synonym codepoint = nat

type_synonym pystr = "codepoint list"

definition py :: "string \<Rightarrow> pystr" where
  "py s = map of_char s"



text \<open>
  The slice \<open>xs[:n]\<close>: a negative bound counts from the end, and a bound outside the list is
  clamped (slicing never raises).
\<close>

definition slice_to :: "'a list \<Rightarrow> int \<Rightarrow> 'a list" where
  "slice_to xs n =
     (if n < 0 then take (nat (int (length xs) + n)) xs else take (nat n) xs)"

text \<open>The exceptions the modelled code raises or lets through.\<close>

datatype exn =
    Http404
  | ValidationError pystr
  | TypeError
  | KeyError
  | ExternalServiceError pystr

section \<open>models.py\<close>

record Post =
  body :: pystr

definition get_excerpt :: "Post \<Rightarrow> int \<Rightarrow> pystr" where
  "get_excerpt self char = slice_to (body self) char"

text \<open>The Record Store: the table of Posts, keyed by primary key.\<close>

type_synonym store = "nat \<rightharpoonup> Post"

section \<open>forms.py\<close>

text \<open>
  \<open>PostForm.clean_body\<close> reads \<open>cleaned_data.get('body')\<close>, which is \<open>None\<close> when the key is
  missing; \<open>len(None)\<close> raises \<open>TypeError\<close>.
\<close>

definition clean_body :: "(string \<rightharpoonup> pystr) \<Rightarrow> exn + pystr" where
  "clean_body cleaned_data =
     (case cleaned_data ''body'' of
        None \<Rightarrow> Inl TypeError
      | Some data \<Rightarrow>
          if length data \<le> 5 then Inl (ValidationError (py ''Message is too short''))
          else Inr data)"

section \<open>Requests and responses\<close>

text \<open>
  Modelled from the spec: the requester identity that the framework supplies with each
  request (authenticated or not, an optional display name, a superuser flag); its classes
  are not part of the repository's source. The repository's tests use both kinds: an
  \<open>AnonymousUser()\<close>, which has no \<open>first_name\<close> attribute, and a stored \<open>auth.User\<close>, which
  has one. Of a request, the source reads \<open>request.user\<close> and \<open>request.POST\<close>.
\<close>

record User =
  first_name :: pystr
  is_superuser :: bool

datatype requester = AnonymousUser | Authenticated User

text \<open>\<open>getattr(request.user, 'first_name', None)\<close>, as \<open>PostUpdateView.post\<close> calls it.\<close>

definition getattr_first_name :: "requester \<Rightarrow> pystr option" where
  "getattr_first_name u =
     (case u of AnonymousUser \<Rightarrow> None | Authenticated a \<Rightarrow> Some (first_name a))"

record HttpRequest =
  user :: requester
  POST :: "string \<rightharpoonup> pystr"

text \<open>
  Modelled from the spec: the framework's responses, which the repository's source does not
  define. A response is a redirect to a location (status 302) or a rendered form (status
  200); of a rendered form the model keeps the text of its \<open>body\<close> field and the errors
  attached to its fields.
\<close>

record form =
  form_value :: pystr
  form_errors :: "(string \<times> pystr) list"

datatype response =
    HttpResponseRedirect pystr
  | TemplateResponse string form

definition status_code :: "response \<Rightarrow> nat" where
  "status_code r = (case r of HttpResponseRedirect url \<Rightarrow> 302 | TemplateResponse t f \<Rightarrow> 200)"

section \<open>views.py: PostUpdateView\<close>

definition template_name :: string where
  "template_name = ''/birdie/update.html''"

definition success_url :: pystr where
  "success_url = py ''/''"

text \<open>
  Modelled from the spec: the form's field cleaning of the framework's \<open>ModelForm\<close>, which is
  not part of the repository's source. It hands the submitted \<open>body\<close> to the Validator; a
  missing field counts as the empty text (the spec's Validator treats empty and missing
  input alike, as input of length at most 5).
\<close>

definition submitted_body :: "(string \<rightharpoonup> pystr) \<Rightarrow> pystr" where
  "submitted_body submitted = (case submitted ''body'' of None \<Rightarrow> [] | Some raw \<Rightarrow> raw)"

text \<open>
  Modelled from the spec: the \<open>cleaned_data\<close> that the framework's form hands to
  \<open>clean_body\<close>, holding the submitted body under the form's one field.
\<close>

definition cleaned_data_of :: "(string \<rightharpoonup> pystr) \<Rightarrow> (string \<rightharpoonup> pystr)" where
  "cleaned_data_of submitted = Map.empty(''body'' \<mapsto> submitted_body submitted)"

text \<open>
  Modelled from the spec: the read path of the framework's \<open>UpdateView\<close> (\<open>get\<close>), which
  \<open>PostUpdateView\<close> inherits and the repository's source does not contain. It retrieves the
  Post by id, fails with NotFound if absent, and renders a form pre-populated with the
  current body. There is no authorization check on read.
\<close>

definition UpdateView_get :: "HttpRequest \<Rightarrow> nat \<Rightarrow> store \<Rightarrow> exn + response" where
  "UpdateView_get request pk db =
     (case db pk of
        None \<Rightarrow> Inl Http404
      | Some obj \<Rightarrow>
          Inr (TemplateResponse template_name \<lparr>form_value = body obj, form_errors = []\<rparr>))"

text \<open>
  Modelled from the spec: the submit path of the framework's \<open>UpdateView\<close> (\<open>post\<close>), which
  the repository's source calls through \<open>super\<close> and does not contain. Step 1 retrieves the
  Post by id and fails with NotFound if absent; step 3 runs the Validator on the submitted
  body and on failure re-renders the form with a field-level error, with no persistence;
  step 4 persists the validated body and redirects to the fixed success location. Any other
  exception of the Validator is let through.
\<close>

definition UpdateView_post :: "HttpRequest \<Rightarrow> nat \<Rightarrow> store \<Rightarrow> (exn + response) \<times> store" where
  "UpdateView_post request pk db =
     (case db pk of
        None \<Rightarrow> (Inl Http404, db)
      | Some obj \<Rightarrow>
          (case clean_body (cleaned_data_of (POST request)) of
             Inr data \<Rightarrow>
               (Inr (HttpResponseRedirect success_url), db(pk \<mapsto> obj\<lparr>body := data\<rparr>))
           | Inl (ValidationError msg) \<Rightarrow>
               (Inr (TemplateResponse template_name
                  \<lparr>form_value = submitted_body (POST request),
                   form_errors = [(''body'', msg)]\<rparr>), db)
           | Inl e \<Rightarrow> (Inl e, db)))"

text \<open>
  \<open>PostUpdateView\<close> does not override \<open>get\<close>: a GET request runs the inherited read path.
\<close>

definition PostUpdateView_get :: "HttpRequest \<Rightarrow> nat \<Rightarrow> store \<Rightarrow> exn + response" where
  "PostUpdateView_get request pk db = UpdateView_get request pk db"

text \<open>
  \<open>PostUpdateView.post\<close>, with the inherited \<open>post\<close> it calls through \<open>super\<close> as the
  parameter \<open>super_post\<close>. Raising \<open>Http404\<close> leaves the store as it was.
\<close>

definition PostUpdateView_post ::
  "(HttpRequest \<Rightarrow> nat \<Rightarrow> store \<Rightarrow> (exn + response) \<times> store) \<Rightarrow>
   HttpRequest \<Rightarrow> nat \<Rightarrow> store \<Rightarrow> (exn + response) \<times> store" where
  "PostUpdateView_post super_post request pk db =
     (if getattr_first_name (user request) = Some (py ''Martin'') then (Inl Http404, db)
      else super_post request pk db)"

section \<open>views.py: PaymentView\<close>

record charge_request =
  amount :: int
  currency :: pystr
  description :: pystr
  token :: "pystr option"

record email =
  subject :: pystr
  message :: pystr
  from_email :: pystr
  recipient_list :: "pystr list"

text \<open>
  The external collaborators: the Charge Service answers a charge request with a charge (a
  dictionary) or raises; the mail backend accepts an email or raises.
\<close>

record services =
  Charge_create :: "charge_request \<Rightarrow> exn + (string \<rightharpoonup> pystr)"
  mail_error :: "email \<Rightarrow> exn option"

text \<open>What the workflow has done to the outside: the charge requests sent and the emails sent.\<close>

record world =
  charge_calls :: "charge_request list"
  outbox :: "email list"

text \<open>
  Modelled from the spec: the framework's \<open>send_mail(subject, message, from_email,
  recipient_list)\<close>, which the repository's source calls and does not contain. It sends one
  email with the given subject, body, sender and recipients, or fails with the mail
  backend's exception and sends nothing.
\<close>

definition send_mail ::
  "services \<Rightarrow> pystr \<Rightarrow> pystr \<Rightarrow> pystr \<Rightarrow> pystr list \<Rightarrow> world \<Rightarrow> (exn + unit) \<times> world" where
  "send_mail sv subj msg sender recipients w =
     (let e = \<lparr>subject = subj, message = msg, from_email = sender, recipient_list = recipients\<rparr>
      in case mail_error sv e of
           Some x \<Rightarrow> (Inl x, w)
         | None \<Rightarrow> (Inr (), w\<lparr>outbox := outbox w @ [e]\<rparr>))"

definition PaymentView_post :: "services \<Rightarrow> HttpRequest \<Rightarrow> world \<Rightarrow> (exn + response) \<times> world" where
  "PaymentView_post sv request w =
     (let req = \<lparr>amount = 100, currency = py ''sgd'', description = py '''',
                 token = POST request ''token''\<rparr>;
          w1 = w\<lparr>charge_calls := charge_calls w @ [req]\<rparr>
      in case Charge_create sv req of
           Inl e \<Rightarrow> (Inl e, w1)
         | Inr charge \<Rightarrow>
             (case charge ''id'' of
                None \<Rightarrow> (Inl KeyError, w1)
              | Some cid \<Rightarrow>
                  (case send_mail sv (py ''Payment received'')
                          (py ''Charge '' @ cid @ py '' succeeded!'')
                          (py ''server@example.com'') [py ''admin@example.com''] w1 of
                     (Inl e, w2) \<Rightarrow> (Inl e, w2)
                   | (Inr u, w2) \<Rightarrow> (Inr (HttpResponseRedirect (py ''/'')), w2))))"

section \<open>Post.get_excerpt\<close>

lemma slice_to_nat: "slice_to xs (int n) = take n xs"
  by (simp add: slice_to_def)

text \<open>
  C9. For every Post \<open>p\<close> and every natural number \<open>n\<close>, \<open>p.get_excerpt(n)\<close> is the first
  \<open>min(n, len(p.body))\<close> characters of \<open>p.body\<close>; in particular \<open>p.body\<close> starts with the
  excerpt, and when \<open>n\<close> is at least the length of the body the excerpt is the whole body.
\<close>

theorem get_excerpt_prefix:
  "get_excerpt p (int n) = take (min n (length (body p))) (body p)
   \<and> (\<exists>rest. body p = get_excerpt p (int n) @ rest)
   \<and> (length (body p) \<le> n \<longrightarrow> get_excerpt p (int n) = body p)"
proof -
  have e: "get_excerpt p (int n) = take n (body p)"
    by (simp add: get_excerpt_def slice_to_nat)
  have "body p = take n (body p) @ drop n (body p)"
    by simp
  then have "\<exists>rest. body p = take n (body p) @ rest"
    by blast
  with e show ?thesis
    by (simp add: min_def)
qed

text \<open>The repository's own test, and an excerpt longer than the body.\<close>

theorem get_excerpt_prefix_witness:
  "get_excerpt \<lparr>body = py ''Hello World!''\<rparr> 5 = py ''Hello''
   \<and> length (body \<lparr>body = py ''Hello World!''\<rparr>) \<le> 20
   \<and> get_excerpt \<lparr>body = py ''Hello World!''\<rparr> 20 = py ''Hello World!''"
  using get_excerpt_prefix [of "\<lparr>body = py ''Hello World!''\<rparr>" 5]
    get_excerpt_prefix [of "\<lparr>body = py ''Hello World!''\<rparr>" 20]
  by (simp add: py_def)

section \<open>PostForm.clean_body\<close>




section \<open>PostUpdateView\<close>

text \<open>
  C1. For every Post and every requester whose first name is \<open>"Martin"\<close>, the submit path
  raises \<open>Http404\<close>, whatever the submitted body; no other requester is stopped by this check
  (the request goes on to the inherited \<open>post\<close>), and an unauthenticated requester never is.
\<close>

theorem PostUpdateView_post_gate:
  "(getattr_first_name (user request) = Some (py ''Martin'') \<longrightarrow>
      PostUpdateView_post super_post request pk db = (Inl Http404, db))
   \<and> (getattr_first_name (user request) \<noteq> Some (py ''Martin'') \<longrightarrow>
      PostUpdateView_post super_post request pk db = super_post request pk db)
   \<and> PostUpdateView_post super_post (request\<lparr>user := AnonymousUser\<rparr>) pk db =
       super_post (request\<lparr>user := AnonymousUser\<rparr>) pk db"
  by (simp add: PostUpdateView_post_def getattr_first_name_def)

text \<open>Martin is stopped; Martina is handed on to the inherited \<open>post\<close>.\<close>

theorem PostUpdateView_post_gate_witness:
  "PostUpdateView_post (\<lambda>r k d. (Inr (HttpResponseRedirect (py ''/'')), d))
      \<lparr>user = Authenticated \<lparr>first_name = py ''Martin'', is_superuser = False\<rparr>,
       POST = Map.empty(''body'' \<mapsto> py ''New Body Text!'')\<rparr> 1
      (Map.empty(1 \<mapsto> \<lparr>body = py ''Old text''\<rparr>))
    = (Inl Http404, Map.empty(1 \<mapsto> \<lparr>body = py ''Old text''\<rparr>))
   \<and> PostUpdateView_post (\<lambda>r k d. (Inr (HttpResponseRedirect (py ''/'')), d))
      \<lparr>user = Authenticated \<lparr>first_name = py ''Martina'', is_superuser = False\<rparr>,
       POST = Map.empty(''body'' \<mapsto> py ''New Body Text!'')\<rparr> 1
      (Map.empty(1 \<mapsto> \<lparr>body = py ''Old text''\<rparr>))
    = (Inr (HttpResponseRedirect (py ''/'')), Map.empty(1 \<mapsto> \<lparr>body = py ''Old text''\<rparr>))"
  using PostUpdateView_post_gate [of
      "\<lparr>user = Authenticated \<lparr>first_name = py ''Martin'', is_superuser = False\<rparr>,
        POST = Map.empty(''body'' \<mapsto> py ''New Body Text!'')\<rparr>"
      "\<lambda>r k d. (Inr (HttpResponseRedirect (py ''/'')), d)" 1
      "Map.empty(1 \<mapsto> \<lparr>body = py ''Old text''\<rparr>)"]
    PostUpdateView_post_gate [of
      "\<lparr>user = Authenticated \<lparr>first_name = py ''Martina'', is_superuser = False\<rparr>,
        POST = Map.empty(''body'' \<mapsto> py ''New Body Text!'')\<rparr>"
      "\<lambda>r k d. (Inr (HttpResponseRedirect (py ''/'')), d)" 1
      "Map.empty(1 \<mapsto> \<lparr>body = py ''Old text''\<rparr>)"]
  by (simp add: getattr_first_name_def py_def)

text \<open>
  C10. For a requester whose first name is \<open>"Martin"\<close> the submit path raises \<open>Http404\<close>
  before it retrieves the record or validates: whatever the inherited \<open>post\<close> would do,
  whatever the identifier (also one no Post has) and whatever the submitted data, the result
  is \<open>Http404\<close> and the Record Store is as it was.
\<close>

theorem PostUpdateView_post_Martin_first:
  assumes "getattr_first_name (user request) = Some (py ''Martin'')"
  shows "PostUpdateView_post super_post (request\<lparr>POST := data\<rparr>) pk db = (Inl Http404, db)
         \<and> PostUpdateView_post super_post (request\<lparr>POST := data\<rparr>) pk (db(pk := None)) =
             (Inl Http404, db(pk := None))"
  using assms by (simp add: PostUpdateView_post_def)

text \<open>
  Martin, an empty Record Store, and an inherited \<open>post\<close> that would store a Post and
  redirect.
\<close>

theorem PostUpdateView_post_Martin_first_witness:
  "getattr_first_name
      (user \<lparr>user = Authenticated \<lparr>first_name = py ''Martin'', is_superuser = True\<rparr>,
             POST = Map.empty\<rparr>) = Some (py ''Martin'')
   \<and> PostUpdateView_post
        (\<lambda>r k d. (Inr (HttpResponseRedirect (py ''/'')), d(k \<mapsto> \<lparr>body = py ''stored''\<rparr>)))
        \<lparr>user = Authenticated \<lparr>first_name = py ''Martin'', is_superuser = True\<rparr>,
         POST = Map.empty(''body'' \<mapsto> py ''New Body Text!'')\<rparr> 7 Map.empty
      = (Inl Http404, Map.empty)"
proof -
  have h: "getattr_first_name
      (user \<lparr>user = Authenticated \<lparr>first_name = py ''Martin'', is_superuser = True\<rparr>,
             POST = Map.empty\<rparr>) = Some (py ''Martin'')"
    by (simp add: getattr_first_name_def)
  show ?thesis
    using h PostUpdateView_post_Martin_first [OF h, of
        "\<lambda>r k d. (Inr (HttpResponseRedirect (py ''/'')), d(k \<mapsto> \<lparr>body = py ''stored''\<rparr>))"
        "Map.empty(''body'' \<mapsto> py ''New Body Text!'')" 7 Map.empty]
    by simp
qed

text \<open>
  C2. For every existing Post and every requester whose first name is not \<open>"Martin"\<close>
  (an unauthenticated one too), submitting a body that passes validation stores exactly the
  submitted text as the Post's body, leaves every other Post alone, and returns a redirect
  (status 302) to the fixed success location \<open>"/"\<close>.
\<close>

theorem PostUpdateView_post_valid:
  assumes "db pk = Some obj"
    and "getattr_first_name (user request) \<noteq> Some (py ''Martin'')"
    and "POST request ''body'' = Some b"
    and "clean_body (Map.empty(''body'' \<mapsto> b)) = Inr v"
  shows "PostUpdateView_post UpdateView_post request pk db =
           (Inr (HttpResponseRedirect (py ''/'')), db(pk \<mapsto> obj\<lparr>body := b\<rparr>))
         \<and> status_code (HttpResponseRedirect (py ''/'')) = 302"
proof -
  from assms(4) have "5 < length b"
    by (auto simp: clean_body_def split: if_splits)
  with assms(3) have "clean_body (cleaned_data_of (POST request)) = Inr b"
    by (simp add: clean_body_def cleaned_data_of_def submitted_body_def)
  with assms(1,2) show ?thesis
    by (simp add: PostUpdateView_post_def UpdateView_post_def success_url_def status_code_def)
qed

text \<open>The repository's view test: an anonymous requester submits \<open>"New Body Text!"\<close>.\<close>

theorem PostUpdateView_post_valid_witness:
  "PostUpdateView_post UpdateView_post
      \<lparr>user = AnonymousUser, POST = Map.empty(''body'' \<mapsto> py ''New Body Text!'')\<rparr> 1
      (Map.empty(1 \<mapsto> \<lparr>body = py ''Old text''\<rparr>))
    = (Inr (HttpResponseRedirect (py ''/'')),
       (Map.empty(1 \<mapsto> \<lparr>body = py ''Old text''\<rparr>))(1 \<mapsto> \<lparr>body = py ''New Body Text!''\<rparr>))
   \<and> clean_body (Map.empty(''body'' \<mapsto> py ''New Body Text!'')) = Inr (py ''New Body Text!'')"
proof -
  have v: "clean_body (Map.empty(''body'' \<mapsto> py ''New Body Text!'')) = Inr (py ''New Body Text!'')"
    by (simp add: clean_body_def py_def)
  have u: "getattr_first_name
      (user \<lparr>user = AnonymousUser, POST = Map.empty(''body'' \<mapsto> py ''New Body Text!'')\<rparr>)
      \<noteq> Some (py ''Martin'')"
    by (simp add: getattr_first_name_def)
  have d: "(Map.empty(1 \<mapsto> \<lparr>body = py ''Old text''\<rparr>)) (1::nat) = Some \<lparr>body = py ''Old text''\<rparr>"
    by simp
  have b: "POST \<lparr>user = AnonymousUser, POST = Map.empty(''body'' \<mapsto> py ''New Body Text!'')\<rparr>
      ''body'' = Some (py ''New Body Text!'')"
    by simp
  show ?thesis
    using d u b v PostUpdateView_post_valid [where db = "Map.empty(1 \<mapsto> \<lparr>body = py ''Old text''\<rparr>)"
        and pk = 1 and obj = "\<lparr>body = py ''Old text''\<rparr>"
        and request = "\<lparr>user = AnonymousUser, POST = Map.empty(''body'' \<mapsto> py ''New Body Text!'')\<rparr>"
        and b = "py ''New Body Text!''" and v = "py ''New Body Text!''"]
    by simp
qed

text \<open>
  C3. For every existing Post and every requester whose first name is not \<open>"Martin"\<close>,
  submitting a body of length at most 5 gives the form again, with an error on its \<open>body\<close>
  field and status 200 (no redirect), and the Record Store, so the Post's stored body, is as
  it was before the request.
\<close>

theorem PostUpdateView_post_invalid:
  assumes "db pk = Some obj"
    and "getattr_first_name (user request) \<noteq> Some (py ''Martin'')"
    and "POST request ''body'' = Some b"
    and "length b \<le> 5"
  shows "(\<exists>msg. PostUpdateView_post UpdateView_post request pk db =
           (Inr (TemplateResponse template_name
              \<lparr>form_value = b, form_errors = [(''body'', msg)]\<rparr>), db))
         \<and> (\<exists>f. fst (PostUpdateView_post UpdateView_post request pk db) =
                   Inr (TemplateResponse template_name f)
                \<and> status_code (TemplateResponse template_name f) = 200)
         \<and> snd (PostUpdateView_post UpdateView_post request pk db) pk = Some obj"
proof -
  from assms(3,4) have
    "clean_body (cleaned_data_of (POST request)) = Inl (ValidationError (py ''Message is too short''))"
    by (simp add: clean_body_def cleaned_data_of_def submitted_body_def)
  with assms(1,2,3) show ?thesis
    by (simp add: PostUpdateView_post_def UpdateView_post_def status_code_def submitted_body_def)
qed

text \<open>The spec's example: \<open>"Hello"\<close>, of length 5, submitted by an anonymous requester.\<close>

theorem PostUpdateView_post_invalid_witness:
  "length (py ''Hello'') \<le> 5
   \<and> fst (PostUpdateView_post UpdateView_post
      \<lparr>user = AnonymousUser, POST = Map.empty(''body'' \<mapsto> py ''Hello'')\<rparr> 1
      (Map.empty(1 \<mapsto> \<lparr>body = py ''Old text''\<rparr>)))
    = Inr (TemplateResponse template_name
        \<lparr>form_value = py ''Hello'', form_errors = [(''body'', py ''Message is too short'')]\<rparr>)
   \<and> snd (PostUpdateView_post UpdateView_post
      \<lparr>user = AnonymousUser, POST = Map.empty(''body'' \<mapsto> py ''Hello'')\<rparr> 1
      (Map.empty(1 \<mapsto> \<lparr>body = py ''Old text''\<rparr>))) 1
    = Some \<lparr>body = py ''Old text''\<rparr>"
proof -
  have l: "length (py ''Hello'') \<le> 5"
    by (simp add: py_def)
  have u: "getattr_first_name
      (user \<lparr>user = AnonymousUser, POST = Map.empty(''body'' \<mapsto> py ''Hello'')\<rparr>)
      \<noteq> Some (py ''Martin'')"
    by (simp add: getattr_first_name_def)
  have d: "(Map.empty(1 \<mapsto> \<lparr>body = py ''Old text''\<rparr>)) (1::nat) = Some \<lparr>body = py ''Old text''\<rparr>"
    by simp
  have b: "POST \<lparr>user = AnonymousUser, POST = Map.empty(''body'' \<mapsto> py ''Hello'')\<rparr>
      ''body'' = Some (py ''Hello'')"
    by simp
  have r: "fst (PostUpdateView_post UpdateView_post
      \<lparr>user = AnonymousUser, POST = Map.empty(''body'' \<mapsto> py ''Hello'')\<rparr> 1
      (Map.empty(1 \<mapsto> \<lparr>body = py ''Old text''\<rparr>)))
    = Inr (TemplateResponse template_name
        \<lparr>form_value = py ''Hello'', form_errors = [(''body'', py ''Message is too short'')]\<rparr>)"
    by (simp add: PostUpdateView_post_def UpdateView_post_def getattr_first_name_def
        clean_body_def cleaned_data_of_def submitted_body_def py_def)
  show ?thesis
    using d u b l r PostUpdateView_post_invalid [where db = "Map.empty(1 \<mapsto> \<lparr>body = py ''Old text''\<rparr>)"
        and pk = 1 and obj = "\<lparr>body = py ''Old text''\<rparr>"
        and request = "\<lparr>user = AnonymousUser, POST = Map.empty(''body'' \<mapsto> py ''Hello'')\<rparr>"
        and b = "py ''Hello''"]
    by simp
qed

text \<open>
  C5. The read path has no authorization check: for every existing Post and every
  requester, one whose first name is \<open>"Martin"\<close> too, a GET with the Post's identifier gives
  status 200 and a form pre-populated with the Post's current body; it raises \<open>Http404\<close>, and
  nothing else, exactly when no Post has the identifier.
\<close>

theorem PostUpdateView_get_no_gate:
  "(db pk = Some obj \<longrightarrow>
      PostUpdateView_get request pk db =
        Inr (TemplateResponse template_name \<lparr>form_value = body obj, form_errors = []\<rparr>)
      \<and> status_code (TemplateResponse template_name
           \<lparr>form_value = body obj, form_errors = []\<rparr>) = 200)
   \<and> (PostUpdateView_get request pk db = Inl e) = (db pk = None \<and> e = Http404)"
  by (auto simp: PostUpdateView_get_def UpdateView_get_def status_code_def split: option.splits)

text \<open>Martin reads Post 1; Post 2 does not exist.\<close>

theorem PostUpdateView_get_no_gate_witness:
  "PostUpdateView_get
      \<lparr>user = Authenticated \<lparr>first_name = py ''Martin'', is_superuser = False\<rparr>,
       POST = Map.empty\<rparr> 1 (Map.empty(1 \<mapsto> \<lparr>body = py ''Old text''\<rparr>))
    = Inr (TemplateResponse template_name \<lparr>form_value = py ''Old text'', form_errors = []\<rparr>)
   \<and> PostUpdateView_get
      \<lparr>user = Authenticated \<lparr>first_name = py ''Martin'', is_superuser = False\<rparr>,
       POST = Map.empty\<rparr> 2 (Map.empty(1 \<mapsto> \<lparr>body = py ''Old text''\<rparr>))
    = Inl Http404"
  using PostUpdateView_get_no_gate [of "Map.empty(1 \<mapsto> \<lparr>body = py ''Old text''\<rparr>)" 1
      "\<lparr>body = py ''Old text''\<rparr>"
      "\<lparr>user = Authenticated \<lparr>first_name = py ''Martin'', is_superuser = False\<rparr>,
        POST = Map.empty\<rparr>" Http404]
    PostUpdateView_get_no_gate [of "Map.empty(1 \<mapsto> \<lparr>body = py ''Old text''\<rparr>)" 2
      "\<lparr>body = py ''Old text''\<rparr>"
      "\<lparr>user = Authenticated \<lparr>first_name = py ''Martin'', is_superuser = False\<rparr>,
        POST = Map.empty\<rparr>" Http404]
  by simp

section \<open>PaymentView\<close>

text \<open>\<open>PaymentView.post\<close> with \<open>send_mail\<close> unfolded: one branch for each way it can end.\<close>

lemma PaymentView_post_cases:
  "PaymentView_post sv request w =
     (let req = \<lparr>amount = 100, currency = py ''sgd'', description = [],
                 token = POST request ''token''\<rparr>;
          w1 = w\<lparr>charge_calls := charge_calls w @ [req]\<rparr>
      in case Charge_create sv req of
           Inl e \<Rightarrow> (Inl e, w1)
         | Inr charge \<Rightarrow>
             (case charge ''id'' of
                None \<Rightarrow> (Inl KeyError, w1)
              | Some cid \<Rightarrow>
                  (let m = \<lparr>subject = py ''Payment received'',
                            message = py ''Charge '' @ cid @ py '' succeeded!'',
                            from_email = py ''server@example.com'',
                            recipient_list = [py ''admin@example.com'']\<rparr>
                   in case mail_error sv m of
                        Some x \<Rightarrow> (Inl x, w1)
                      | None \<Rightarrow> (Inr (HttpResponseRedirect (py ''/'')),
                                 w1\<lparr>outbox := outbox w1 @ [m]\<rparr>))))"
  by (simp add: PaymentView_post_def send_mail_def Let_def py_def
      split: sum.splits option.splits)

text \<open>
  C6. For every POST to the Payment Workflow, exactly one charge request is sent to the
  Charge Service, with amount 100, currency \<open>"sgd"\<close>, empty description and the submitted
  \<open>token\<close> field as its token, present or not and unchecked; two requests with the same
  \<open>token\<close> field send the same charge request, whatever else they hold.
\<close>

theorem PaymentView_post_charge_request:
  "charge_calls (snd (PaymentView_post sv request w)) =
     charge_calls w @
       [\<lparr>amount = 100, currency = py ''sgd'', description = [], token = POST request ''token''\<rparr>]
   \<and> (POST request ''token'' = POST request' ''token'' \<longrightarrow>
        charge_calls (snd (PaymentView_post sv request w)) =
        charge_calls (snd (PaymentView_post sv request' w)))"
proof -
  have sent: "charge_calls (snd (PaymentView_post sv r w)) =
     charge_calls w @
       [\<lparr>amount = 100, currency = py ''sgd'', description = [], token = POST r ''token''\<rparr>]"
    for r
    by (simp add: PaymentView_post_cases Let_def split: sum.splits option.splits)
  show ?thesis
    by (simp add: sent)
qed

text \<open>
  The repository's payment test (token \<open>"123"\<close>), against the same token sent by another
  requester with another field beside it, and against a request with no token at all.
\<close>

theorem PaymentView_post_charge_request_witness:
  "charge_calls (snd (PaymentView_post
       \<lparr>Charge_create = (\<lambda>r. Inr (Map.empty(''id'' \<mapsto> py ''234''))), mail_error = (\<lambda>m. None)\<rparr>
       \<lparr>user = AnonymousUser, POST = Map.empty(''token'' \<mapsto> py ''123'')\<rparr>
       \<lparr>charge_calls = [], outbox = []\<rparr>))
    = [\<lparr>amount = 100, currency = py ''sgd'', description = [], token = Some (py ''123'')\<rparr>]
   \<and> charge_calls (snd (PaymentView_post
       \<lparr>Charge_create = (\<lambda>r. Inr (Map.empty(''id'' \<mapsto> py ''234''))), mail_error = (\<lambda>m. None)\<rparr>
       \<lparr>user = Authenticated \<lparr>first_name = py ''Martin'', is_superuser = False\<rparr>,
        POST = Map.empty(''token'' \<mapsto> py ''123'', ''amount'' \<mapsto> py ''5'')\<rparr>
       \<lparr>charge_calls = [], outbox = []\<rparr>))
    = [\<lparr>amount = 100, currency = py ''sgd'', description = [], token = Some (py ''123'')\<rparr>]
   \<and> charge_calls (snd (PaymentView_post
       \<lparr>Charge_create = (\<lambda>r. Inl (ExternalServiceError (py ''no token''))),
        mail_error = (\<lambda>m. None)\<rparr>
       \<lparr>user = AnonymousUser, POST = Map.empty\<rparr>
       \<lparr>charge_calls = [], outbox = []\<rparr>))
    = [\<lparr>amount = 100, currency = py ''sgd'', description = [], token = None\<rparr>]"
proof -
  let ?sv = "\<lparr>Charge_create = (\<lambda>r. Inr (Map.empty(''id'' \<mapsto> py ''234''))),
              mail_error = (\<lambda>m. None)\<rparr>"
  let ?w = "\<lparr>charge_calls = [], outbox = []\<rparr>"
  let ?r1 = "\<lparr>user = AnonymousUser, POST = Map.empty(''token'' \<mapsto> py ''123'')\<rparr>"
  let ?r2 = "\<lparr>user = Authenticated \<lparr>first_name = py ''Martin'', is_superuser = False\<rparr>,
              POST = Map.empty(''token'' \<mapsto> py ''123'', ''amount'' \<mapsto> py ''5'')\<rparr>"
  have same: "POST ?r1 ''token'' = POST ?r2 ''token''"
    by simp
  note sent = PaymentView_post_charge_request [of ?sv ?r1 ?w ?r2]
  have first: "charge_calls (snd (PaymentView_post ?sv ?r1 ?w)) =
      [\<lparr>amount = 100, currency = py ''sgd'', description = [], token = Some (py ''123'')\<rparr>]"
    using sent [THEN conjunct1] by simp
  have both: "charge_calls (snd (PaymentView_post ?sv ?r1 ?w)) =
      charge_calls (snd (PaymentView_post ?sv ?r2 ?w))"
    using sent [THEN conjunct2] same by simp
  have none: "charge_calls (snd (PaymentView_post
       \<lparr>Charge_create = (\<lambda>r. Inl (ExternalServiceError (py ''no token''))),
        mail_error = (\<lambda>m. None)\<rparr>
       \<lparr>user = AnonymousUser, POST = Map.empty\<rparr> ?w))
    = [\<lparr>amount = 100, currency = py ''sgd'', description = [], token = None\<rparr>]"
    using PaymentView_post_charge_request [of
      "\<lparr>Charge_create = (\<lambda>r. Inl (ExternalServiceError (py ''no token''))),
        mail_error = (\<lambda>m. None)\<rparr>"
      "\<lparr>user = AnonymousUser, POST = Map.empty\<rparr>" ?w
      "\<lparr>user = AnonymousUser, POST = Map.empty\<rparr>"]
    by simp
  from first both none show ?thesis
    by simp
qed

text \<open>
  C7. Every successful invocation of the Payment Workflow, whatever the token, has got a
  charge with an identifier from the Charge Service and sends exactly one email, from
  \<open>server@example.com\<close> to \<open>[admin@example.com]\<close>, with subject \<open>Payment received\<close> and body
  \<open>Charge {id} succeeded!\<close> around that identifier, and returns a redirect (status 302) to
  the site root. And the invocation does succeed, in this way, whenever the Charge Service
  returns a charge with an identifier and the mail backend accepts the email.
\<close>

theorem PaymentView_post_success:
  "(PaymentView_post sv request w = (Inr resp, w') \<longrightarrow>
      (\<exists>charge cid.
          Charge_create sv \<lparr>amount = 100, currency = py ''sgd'', description = [],
                            token = POST request ''token''\<rparr> = Inr charge
        \<and> charge ''id'' = Some cid
        \<and> outbox w' = outbox w @
             [\<lparr>subject = py ''Payment received'',
               message = py ''Charge '' @ cid @ py '' succeeded!'',
               from_email = py ''server@example.com'',
               recipient_list = [py ''admin@example.com'']\<rparr>])
      \<and> resp = HttpResponseRedirect (py ''/'') \<and> status_code resp = 302)
   \<and> (Charge_create sv \<lparr>amount = 100, currency = py ''sgd'', description = [],
                          token = POST request ''token''\<rparr> = Inr charge'
        \<and> charge' ''id'' = Some cid'
        \<and> mail_error sv \<lparr>subject = py ''Payment received'',
               message = py ''Charge '' @ cid' @ py '' succeeded!'',
               from_email = py ''server@example.com'',
               recipient_list = [py ''admin@example.com'']\<rparr> = None \<longrightarrow>
      PaymentView_post sv request w =
        (Inr (HttpResponseRedirect (py ''/'')),
         \<lparr>charge_calls = charge_calls w @
            [\<lparr>amount = 100, currency = py ''sgd'', description = [],
              token = POST request ''token''\<rparr>],
          outbox = outbox w @
            [\<lparr>subject = py ''Payment received'',
              message = py ''Charge '' @ cid' @ py '' succeeded!'',
              from_email = py ''server@example.com'',
              recipient_list = [py ''admin@example.com'']\<rparr>]\<rparr>))"
proof -
  have a: "PaymentView_post sv request w = (Inr resp, w') \<Longrightarrow>
      (\<exists>charge cid.
          Charge_create sv \<lparr>amount = 100, currency = py ''sgd'', description = [],
                            token = POST request ''token''\<rparr> = Inr charge
        \<and> charge ''id'' = Some cid
        \<and> outbox w' = outbox w @
             [\<lparr>subject = py ''Payment received'',
               message = py ''Charge '' @ cid @ py '' succeeded!'',
               from_email = py ''server@example.com'',
               recipient_list = [py ''admin@example.com'']\<rparr>])
      \<and> resp = HttpResponseRedirect (py ''/'') \<and> status_code resp = 302"
    by (auto simp: PaymentView_post_cases Let_def status_code_def
        split: sum.splits option.splits)
  have b: "Charge_create sv \<lparr>amount = 100, currency = py ''sgd'', description = [],
                          token = POST request ''token''\<rparr> = Inr charge'
        \<Longrightarrow> charge' ''id'' = Some cid'
        \<Longrightarrow> mail_error sv \<lparr>subject = py ''Payment received'',
               message = py ''Charge '' @ cid' @ py '' succeeded!'',
               from_email = py ''server@example.com'',
               recipient_list = [py ''admin@example.com'']\<rparr> = None \<Longrightarrow>
      PaymentView_post sv request w =
        (Inr (HttpResponseRedirect (py ''/'')),
         \<lparr>charge_calls = charge_calls w @
            [\<lparr>amount = 100, currency = py ''sgd'', description = [],
              token = POST request ''token''\<rparr>],
          outbox = outbox w @
            [\<lparr>subject = py ''Payment received'',
              message = py ''Charge '' @ cid' @ py '' succeeded!'',
              from_email = py ''server@example.com'',
              recipient_list = [py ''admin@example.com'']\<rparr>]\<rparr>)"
    by (simp add: PaymentView_post_cases Let_def)
  from a b show ?thesis
    by blast
qed

text \<open>The repository's payment test: token \<open>"123"\<close>, charge identifier \<open>"234"\<close>.\<close>

theorem PaymentView_post_success_witness:
  "PaymentView_post
       \<lparr>Charge_create = (\<lambda>r. Inr (Map.empty(''id'' \<mapsto> py ''234''))), mail_error = (\<lambda>m. None)\<rparr>
       \<lparr>user = AnonymousUser, POST = Map.empty(''token'' \<mapsto> py ''123'')\<rparr>
       \<lparr>charge_calls = [], outbox = []\<rparr>
    = (Inr (HttpResponseRedirect (py ''/'')),
       \<lparr>charge_calls =
          [\<lparr>amount = 100, currency = py ''sgd'', description = [], token = Some (py ''123'')\<rparr>],
        outbox =
          [\<lparr>subject = py ''Payment received'', message = py ''Charge 234 succeeded!'',
            from_email = py ''server@example.com'',
            recipient_list = [py ''admin@example.com'']\<rparr>]\<rparr>)"
  using PaymentView_post_success [of
      "\<lparr>Charge_create = (\<lambda>r. Inr (Map.empty(''id'' \<mapsto> py ''234''))), mail_error = (\<lambda>m. None)\<rparr>"
      "\<lparr>user = AnonymousUser, POST = Map.empty(''token'' \<mapsto> py ''123'')\<rparr>"
      "\<lparr>charge_calls = [], outbox = []\<rparr>"
      "HttpResponseRedirect (py ''/'')" "\<lparr>charge_calls = [], outbox = []\<rparr>"
      "Map.empty(''id'' \<mapsto> py ''234'')" "py ''234''"]
  by (simp add: py_def)

text \<open>
  C8. If the call to the Charge Service raises, the Payment Workflow ends with that very
  exception: no email is sent (the outbox is as it was) and no response, so no redirect, is
  returned.
\<close>

theorem PaymentView_post_charge_failure:
  assumes "Charge_create sv \<lparr>amount = 100, currency = py ''sgd'', description = [],
                              token = POST request ''token''\<rparr> = Inl e"
  shows "PaymentView_post sv request w =
           (Inl e, w\<lparr>charge_calls := charge_calls w @
              [\<lparr>amount = 100, currency = py ''sgd'', description = [],
                token = POST request ''token''\<rparr>]\<rparr>)
         \<and> outbox (snd (PaymentView_post sv request w)) = outbox w
         \<and> fst (PaymentView_post sv request w) \<noteq> Inr resp"
  using assms by (simp add: PaymentView_post_cases Let_def)

text \<open>A Charge Service that declines every card.\<close>

theorem PaymentView_post_charge_failure_witness:
  "Charge_create
       \<lparr>Charge_create = (\<lambda>r. Inl (ExternalServiceError (py ''card declined''))),
        mail_error = (\<lambda>m. None)\<rparr>
       \<lparr>amount = 100, currency = py ''sgd'', description = [], token = Some (py ''123'')\<rparr>
     = Inl (ExternalServiceError (py ''card declined''))
   \<and> fst (PaymentView_post
       \<lparr>Charge_create = (\<lambda>r. Inl (ExternalServiceError (py ''card declined''))),
        mail_error = (\<lambda>m. None)\<rparr>
       \<lparr>user = AnonymousUser, POST = Map.empty(''token'' \<mapsto> py ''123'')\<rparr>
       \<lparr>charge_calls = [], outbox = []\<rparr>)
     = Inl (ExternalServiceError (py ''card declined''))
   \<and> outbox (snd (PaymentView_post
       \<lparr>Charge_create = (\<lambda>r. Inl (ExternalServiceError (py ''card declined''))),
        mail_error = (\<lambda>m. None)\<rparr>
       \<lparr>user = AnonymousUser, POST = Map.empty(''token'' \<mapsto> py ''123'')\<rparr>
       \<lparr>charge_calls = [], outbox = []\<rparr>))
     = []"
  using PaymentView_post_charge_failure [where
      sv = "\<lparr>Charge_create = (\<lambda>r. Inl (ExternalServiceError (py ''card declined''))),
             mail_error = (\<lambda>m. None)\<rparr>"
      and request = "\<lparr>user = AnonymousUser, POST = Map.empty(''token'' \<mapsto> py ''123'')\<rparr>"
      and e = "ExternalServiceError (py ''card declined'')"
      and w = "\<lparr>charge_calls = [], outbox = []\<rparr>"]
  by simp

end
